theory Spec2Isabelle
  imports Complex_Main "HOL-Library.Word"
begin

section \<open>JavaScript values\<close>

text \<open>
  A JavaScript string is a sequence of UTF-16 code units. String literals of the source
  are ASCII and are written \<open>js ''...''\<close>.
\<close>

type_synonym jstring = "16 word list"

definition js :: "string \<Rightarrow> jstring" where
  "js s = map (\<lambda>c. of_nat (of_char c)) s"

text \<open>
  The values \<open>axios\<close> hands back as \<open>response.data\<close>: a parsed JSON document, or
  the body as a string. A number is an IEEE double; \<open>JSON.parse\<close> produces finite
  doubles (all of them rationals) and, on overflow, an infinity. It never produces NaN.
\<close>

datatype jnumber = Finite rat | PosInfinity | NegInfinity

datatype json =
    JNull
  | JBool bool
  | JNum jnumber
  | JStr jstring
  | JArr "json list"
  | JObj "(jstring \<times> json) list"

text \<open>
  \<open>ToBoolean\<close>: \<open>null\<close>, \<open>false\<close>, \<open>0\<close> and the empty string are falsy; every object
  and array is truthy. \<open>undefined\<close> (an absent property, \<open>None\<close>) is falsy.
\<close>

fun truthy :: "json \<Rightarrow> bool" where
  "truthy JNull = False"
| "truthy (JBool b) = b"
| "truthy (JNum n) = (n \<noteq> Finite 0)"
| "truthy (JStr s) = (s \<noteq> [])"
| "truthy (JArr xs) = True"
| "truthy (JObj kvs) = True"

fun truthy_opt :: "json option \<Rightarrow> bool" where
  "truthy_opt None = False"
| "truthy_opt (Some v) = truthy v"

text \<open>
  Property access \<open>v.k\<close> on a non-null value, for the property names the bridge reads
  (\<open>reply\<close>, \<open>message\<close>, \<open>text\<close>, \<open>response\<close>, \<open>data\<close>, \<open>to\<close>): an object yields its
  own property, and no primitive wrapper or array prototype defines any of these names.
  An object is kept as its list of own properties, the first binding of a key being
  the property's value.
\<close>

fun get_prop :: "json \<Rightarrow> jstring \<Rightarrow> json option" where
  "get_prop (JObj kvs) k = map_of kvs k"
| "get_prop v k = None"

fun is_string :: "json \<Rightarrow> bool" where
  "is_string (JStr s) = True"
| "is_string v = False"

section \<open>Reply resolution (\<open>handleIncomingMessage\<close>, lines 141--161)\<close>

text \<open>
  The value of \<open>responseText\<close> after the chain of tests; \<open>None\<close> is the initial
  \<open>null\<close> that no branch overwrote.
\<close>

definition resolve :: "json \<Rightarrow> json option" where
  "resolve n8nResponse =
     (if truthy n8nResponse then
        if truthy_opt (get_prop n8nResponse (js ''reply'')) then get_prop n8nResponse (js ''reply'')
        else if truthy_opt (get_prop n8nResponse (js ''message'')) then get_prop n8nResponse (js ''message'')
        else if truthy_opt (get_prop n8nResponse (js ''text'')) then get_prop n8nResponse (js ''text'')
        else if is_string n8nResponse then Some n8nResponse
        else if truthy_opt (get_prop n8nResponse (js ''response'')) then get_prop n8nResponse (js ''response'')
        else if truthy_opt (get_prop n8nResponse (js ''data'')) then get_prop n8nResponse (js ''data'')
        else None
      else None)"

section \<open>String operations\<close>

text \<open>
  \<open>s.replace(pat, rep)\<close> with a string pattern replaces the first occurrence of
  \<open>pat\<close> in \<open>s\<close> and leaves \<open>s\<close> alone when there is none. (The source's replacement
  is the empty string, so no replacement pattern is involved.)
\<close>

fun replace_first :: "'a list \<Rightarrow> 'a list \<Rightarrow> 'a list \<Rightarrow> 'a list" where
  "replace_first pat rep [] = (if pat = [] then rep else [])"
| "replace_first pat rep (c # cs) =
     (if take (length pat) (c # cs) = pat then rep @ drop (length pat) (c # cs)
      else c # replace_first pat rep cs)"

text \<open>
  \<open>s.trim()\<close> removes the leading and trailing code units that are ECMAScript
  \<open>WhiteSpace\<close> or \<open>LineTerminator\<close>.
\<close>

definition is_ws :: "16 word \<Rightarrow> bool" where
  "is_ws c =
     (c \<in> set [0x0009, 0x000A, 0x000B, 0x000C, 0x000D, 0x0020, 0x00A0, 0x1680,
               0x2028, 0x2029, 0x202F, 0x205F, 0x3000, 0xFEFF]
      \<or> (0x2000 \<le> c \<and> c \<le> 0x200A))"

definition trim :: "jstring \<Rightarrow> jstring" where
  "trim s = rev (dropWhile is_ws (rev (dropWhile is_ws s)))"

section \<open>Inbound messages\<close>

text \<open>
  \<open>message.message\<close> is the decoded envelope: an object whose own keys, in order, are
  the content fields. Only the first key decides the kind
  (\<open>Object.keys(message.message || {})[0]\<close>). The text-bearing members are
  \<open>string | null\<close> in the protocol's types, so each is an option; what stands under
  \<open>extendedTextMessage\<close> or \<open>imageMessage\<close> is an object, as the decoder produces it.
  \<open>OtherField k\<close> is a key \<open>k\<close> other than the three the bridge reads.
\<close>

datatype wa_field =
    Conversation "jstring option"
  | ExtendedTextMessage "jstring option"
  | ImageMessage "jstring option"
  | OtherField jstring

fun field_name :: "wa_field \<Rightarrow> jstring" where
  "field_name (Conversation t) = js ''conversation''"
| "field_name (ExtendedTextMessage t) = js ''extendedTextMessage''"
| "field_name (ImageMessage c) = js ''imageMessage''"
| "field_name (OtherField k) = k"

record message_key =
  remoteJid :: "jstring option"
  fromMe :: bool
  key_id :: "jstring option"

record wa_message =
  key :: message_key
  message :: "wa_field list option"

text \<open>The webhook payload \<open>messageData\<close>: \<open>{from, text, timestamp, messageId, messageType}\<close>.\<close>

record message_data =
  msg_from :: jstring
  msg_text :: jstring
  timestamp :: jstring
  messageId :: "jstring option"
  messageType :: jstring

datatype js_error = TypeError

text \<open>
  The branch on \<open>messageType\<close> (lines 116--124). The outer \<open>None\<close> is the \<open>return\<close>
  of the last branch; otherwise the result is the value assigned to \<open>text\<close>, which is
  \<open>None\<close> when the member read is \<open>null\<close> or absent. An image caption is tested for
  truthiness, so an absent and an empty caption both take the \<open>return\<close>.
\<close>

fun select_text :: "wa_field list \<Rightarrow> jstring option option" where
  "select_text [] = None"
| "select_text (Conversation t # fs) = Some t"
| "select_text (ExtendedTextMessage t # fs) = Some t"
| "select_text (ImageMessage (Some c) # fs) = (if c \<noteq> [] then Some (Some c) else None)"
| "select_text (ImageMessage None # fs) = None"
| "select_text (OtherField k # fs) = None"

text \<open>
  Lines 112--134 of \<open>handleIncomingMessage\<close>: from the envelope to \<open>messageData\<close>.
  \<open>Inr None\<close> is the early \<open>return\<close>; \<open>Inl TypeError\<close> is the exception of
  \<open>from.replace\<close> or \<open>text.trim\<close> on a value that is not a string. \<open>now\<close> is
  \<open>new Date().toISOString()\<close>.
\<close>

definition normalize :: "jstring \<Rightarrow> wa_message \<Rightarrow> js_error + message_data option" where
  "normalize now msg =
     (case (case message msg of None \<Rightarrow> [] | Some fs \<Rightarrow> fs) of
        [] \<Rightarrow> Inr None
      | f # fs \<Rightarrow>
          (case select_text (f # fs) of
             None \<Rightarrow> Inr None
           | Some text \<Rightarrow>
               (case remoteJid (key msg) of
                  None \<Rightarrow> Inl TypeError
                | Some from \<Rightarrow>
                    (let cleanFrom = replace_first (js ''@c.us'') []
                                       (replace_first (js ''@s.whatsapp.net'') [] from) in
                     case text of
                       None \<Rightarrow> Inl TypeError
                     | Some t \<Rightarrow>
                         Inr (Some \<lparr> msg_from = cleanFrom, msg_text = trim t, timestamp = now,
                                     messageId = key_id (key msg),
                                     messageType = field_name f \<rparr>)))))"

section \<open>Effects\<close>

text \<open>
  What a handler does to the outside, in order: the webhook call, a call of
  \<open>sock.sendMessage(jid, {text})\<close>, and the logger's records by level. The first
  argument of \<open>sock.sendMessage\<close> is a string, or, on \<open>POST /send\<close> only, an array
  that the request supplied (\<open>SockSendMessageArray\<close>).
\<close>

datatype effect =
    HttpPost message_data
  | SockSendMessage jstring json
  | SockSendMessageArray "json list" json
  | LogInfo
  | LogWarn
  | LogError

text \<open>
  How \<open>axios.post\<close> settles: it resolves with the parsed body on a 2xx status, and
  rejects on a network failure, on the 10 second timeout, and on any other status;
  only the last kind of rejection carries \<open>error.response\<close>.
\<close>

datatype relay_failure = NetworkError | Timeout | HTTPStatus nat json

datatype http_outcome = Resolved json | Rejected relay_failure

fun has_response :: "relay_failure \<Rightarrow> bool" where
  "has_response (HTTPStatus code body) = True"
| "has_response f = False"

text \<open>How \<open>sock.sendMessage\<close> settles: it returns, or throws an error with a message.\<close>

datatype send_outcome = Sent | SendFailed jstring

section \<open>Relay and reply\<close>

text \<open>\<open>sendToN8n\<close>: one webhook call; the result is \<open>response.data\<close>, or \<open>null\<close> from the \<open>catch\<close>.\<close>

fun sendToN8n :: "http_outcome \<Rightarrow> message_data \<Rightarrow> effect list \<times> json" where
  "sendToN8n (Resolved d) messageData = ([HttpPost messageData, LogInfo], d)"
| "sendToN8n (Rejected f) messageData =
     ([HttpPost messageData, LogError] @ (if has_response f then [LogError] else []), JNull)"

text \<open>
  \<open>sendWhatsAppReply\<close>: the send, then an info record that reads \<open>text.substring\<close>;
  a \<open>text\<close> that is not a string has no such method and ends in the \<open>catch\<close>.
\<close>

fun sendWhatsAppReply :: "send_outcome \<Rightarrow> jstring \<Rightarrow> json \<Rightarrow> effect list" where
  "sendWhatsAppReply Sent to_jid text =
     [SockSendMessage to_jid text, if is_string text then LogInfo else LogError]"
| "sendWhatsAppReply (SendFailed m) to_jid text = [SockSendMessage to_jid text, LogError]"

definition handleIncomingMessage ::
  "http_outcome \<Rightarrow> send_outcome \<Rightarrow> jstring \<Rightarrow> wa_message \<Rightarrow> effect list" where
  "handleIncomingMessage http snd_out now msg =
     (case normalize now msg of
        Inl e \<Rightarrow> [LogError]
      | Inr None \<Rightarrow> []
      | Inr (Some messageData) \<Rightarrow>
          (case remoteJid (key msg) of
             None \<Rightarrow> [LogError]
           | Some from \<Rightarrow>
               (let (es, n8nResponse) = sendToN8n http messageData;
                    responseText = resolve n8nResponse
                in [LogInfo] @ es
                   @ (if truthy n8nResponse then [LogInfo] else [])
                   @ (case responseText of
                        None \<Rightarrow> [LogWarn]
                      | Some r \<Rightarrow>
                          if truthy r then sendWhatsAppReply snd_out from r else [LogWarn]))))"

text \<open>
  The \<open>messages.upsert\<close> listener: only \<open>m.messages[0]\<close> is looked at, and it is
  handled when it is not the session's own and the batch is a notification.
\<close>

definition on_messages_upsert ::
  "http_outcome \<Rightarrow> send_outcome \<Rightarrow> jstring \<Rightarrow> wa_message list option \<Rightarrow> jstring \<Rightarrow> effect list" where
  "on_messages_upsert http snd_out now messages upsert_type =
     (case messages of
        None \<Rightarrow> []
      | Some [] \<Rightarrow> []
      | Some (m # ms) \<Rightarrow>
          if \<not> fromMe (key m) \<and> upsert_type = js ''notify''
          then handleIncomingMessage http snd_out now m else [])"

section \<open>Connection state\<close>

text \<open>
  A \<open>connection.update\<close>: \<open>connection\<close> is \<open>'close'\<close>, \<open>'open'\<close>, \<open>'connecting'\<close> or
  absent; \<open>statusCode\<close> is \<open>lastDisconnect?.error?.output?.statusCode\<close>; \<open>qr\<close> is the
  pairing token.
\<close>

datatype connection = Close | Open | Connecting

record connection_update =
  connection :: "connection option"
  statusCode :: "int option"
  qr :: "jstring option"

text \<open>
  The process-wide variables \<open>isConnected\<close> and \<open>currentQR\<close>; the delays of the
  \<open>setTimeout\<close> calls that have not fired yet; the number of sockets that
  \<open>makeWASocket\<close> has created; the runs of the \<open>connection.update\<close> listener that are
  suspended at \<open>await QRCode.toDataURL(qr)\<close>, each with its update; and the number of
  calls of \<open>connectToWhatsApp\<close> that are suspended at \<open>await useMultiFileAuthState\<close>.
\<close>

record bridge =
  isConnected :: bool
  currentQR :: "jstring option"
  timers :: "nat list"
  sockets :: nat
  rendering :: "connection_update list"
  connecting :: nat

definition initial :: bridge where
  "initial = \<lparr> isConnected = False, currentQR = None, timers = [], sockets = 0,
               rendering = [], connecting = 0 \<rparr>"

text \<open>
  The second half of the \<open>connection.update\<close> listener (lines 68--88), which runs
  without suspension. \<open>loggedOut\<close> is the library's constant
  \<open>DisconnectReason.loggedOut\<close>.
\<close>

definition connection_part :: "int \<Rightarrow> bridge \<Rightarrow> connection_update \<Rightarrow> bridge" where
  "connection_part loggedOut s update =
     (case connection update of
        Some Close \<Rightarrow>
          (let s2 = s\<lparr>currentQR := None, isConnected := False\<rparr>;
               shouldReconnect = (statusCode update \<noteq> Some loggedOut)
           in if shouldReconnect then s2\<lparr>timers := timers s2 @ [5000]\<rparr> else s2)
      | Some Open \<Rightarrow> s\<lparr>currentQR := None, isConnected := True\<rparr>
      | Some Connecting \<Rightarrow> s
      | None \<Rightarrow> s)"

text \<open>
  The \<open>connection.update\<close> listener, from the arrival of an update to its first
  suspension. An update without a token is handled to the end. With a token, the
  listener first prints it with \<open>qrcode.generate\<close>, outside any \<open>try\<close>: when that throws
  (\<open>generate_ok\<close> false) the run ends there and the update is lost; otherwise the run
  is suspended at \<open>await QRCode.toDataURL(qr)\<close>, and other events are handled before
  it resumes.
\<close>

definition on_connection_update ::
  "int \<Rightarrow> bridge \<Rightarrow> connection_update \<Rightarrow> bool \<Rightarrow> bridge" where
  "on_connection_update loggedOut s update generate_ok =
     (case qr update of
        None \<Rightarrow> connection_part loggedOut s update
      | Some q \<Rightarrow>
          if q = [] then connection_part loggedOut s update
          else if generate_ok then s\<lparr>rendering := rendering s @ [update]\<rparr>
          else s)"

text \<open>
  The \<open>i\<close>-th suspended run of the listener resumes: \<open>dataURL\<close> is what
  \<open>QRCode.toDataURL(qr)\<close> settled to, \<open>None\<close> when it rejected (the \<open>catch\<close> then
  leaves \<open>currentQR\<close> as it was). The assignment to \<open>currentQR\<close> happens now, and the
  second half of the listener follows with the run's own update.
\<close>

definition render_settled :: "int \<Rightarrow> nat \<Rightarrow> jstring option \<Rightarrow> bridge \<Rightarrow> bridge" where
  "render_settled loggedOut i dataURL s =
     (if i < length (rendering s) then
        (let update = rendering s ! i;
             s1 = s\<lparr>rendering := take i (rendering s) @ drop (Suc i) (rendering s)\<rparr>;
             s2 = (case dataURL of None \<Rightarrow> s1 | Some url \<Rightarrow> s1\<lparr>currentQR := Some url\<rparr>)
         in connection_part loggedOut s2 update)
      else s)"

text \<open>
  \<open>connectToWhatsApp\<close>: the call is suspended at \<open>await useMultiFileAuthState\<close> before
  it touches anything. When it resumes and the set-up succeeds, a socket exists and
  listens; when the set-up throws, the \<open>catch\<close> schedules another call in 10 seconds.
\<close>

definition connectToWhatsApp :: "bridge \<Rightarrow> bridge" where
  "connectToWhatsApp s = s\<lparr>connecting := connecting s + 1\<rparr>"

definition setup_settled :: "bool \<Rightarrow> bridge \<Rightarrow> bridge" where
  "setup_settled setup_ok s =
     (if connecting s = 0 then s
      else
        (let s1 = s\<lparr>connecting := connecting s - 1\<rparr>
         in if setup_ok then s1\<lparr>sockets := sockets s1 + 1\<rparr>
            else s1\<lparr>timers := timers s1 @ [10000]\<rparr>))"

text \<open>A pending timer fires: it leaves the pending list and calls \<open>connectToWhatsApp\<close>.\<close>

definition timer_fired :: "nat \<Rightarrow> bridge \<Rightarrow> bridge" where
  "timer_fired delay s =
     (if delay \<in> set (timers s)
      then connectToWhatsApp (s\<lparr>timers := remove1 delay (timers s)\<rparr>)
      else s)"

text \<open>
  The events that change the connection state, and the state after a sequence of them
  from a given state. \<open>ServerListening\<close> is the callback of \<open>app.listen\<close>, which makes
  the first call of \<open>connectToWhatsApp\<close>.
\<close>

datatype event =
    ServerListening
  | ConnectionUpdate connection_update bool
  | RenderSettled nat "jstring option"
  | TimerFired nat
  | SetupSettled bool

fun step :: "int \<Rightarrow> bridge \<Rightarrow> event \<Rightarrow> bridge" where
  "step loggedOut s ServerListening = connectToWhatsApp s"
| "step loggedOut s (ConnectionUpdate u generate_ok) = on_connection_update loggedOut s u generate_ok"
| "step loggedOut s (RenderSettled i dataURL) = render_settled loggedOut i dataURL s"
| "step loggedOut s (TimerFired delay) = timer_fired delay s"
| "step loggedOut s (SetupSettled setup_ok) = setup_settled setup_ok s"

definition run :: "int \<Rightarrow> bridge \<Rightarrow> event list \<Rightarrow> bridge" where
  "run loggedOut s evs = foldl (step loggedOut) s evs"

section \<open>HTTP endpoints\<close>



text \<open>
  \<open>formattedTo\<close> (line 413). \<open>to.includes('@')\<close> is defined on a string, where it asks
  whether the code unit \<open>0x40\<close> occurs, and on an array, where it asks whether the
  string \<open>'@'\<close> is an element; on any other value \<open>to.includes\<close> is not a function and
  the call throws. The template \<open>`${to}@s.whatsapp.net`\<close> converts an array to a
  string; \<open>to_string\<close> is the string it makes of the request's \<open>to\<close>.
\<close>

datatype jid_arg = JidString jstring | JidArray "json list"

fun formattedTo :: "jstring \<Rightarrow> json \<Rightarrow> js_error + jid_arg" where
  "formattedTo to_string (JStr to) =
     Inr (JidString (if 0x40 \<in> set to then to else to @ js ''@s.whatsapp.net''))"
| "formattedTo to_string (JArr to) =
     Inr (if JStr [0x40] \<in> set to then JidArray to
          else JidString (to_string @ js ''@s.whatsapp.net''))"
| "formattedTo to_string JNull = Inl TypeError"
| "formattedTo to_string (JBool b) = Inl TypeError"
| "formattedTo to_string (JNum n) = Inl TypeError"
| "formattedTo to_string (JObj kvs) = Inl TypeError"

fun send_call :: "jid_arg \<Rightarrow> json \<Rightarrow> effect" where
  "send_call (JidString jid) text = SockSendMessage jid text"
| "send_call (JidArray jid) text = SockSendMessageArray jid text"

text \<open>
  The \<open>catch\<close> of \<open>POST /send\<close> (lines 428--434), entered after the effects \<open>es\<close> with
  an error whose message is \<open>details\<close>.
\<close>

definition send_catch :: "effect list \<Rightarrow> jstring \<Rightarrow> effect list \<times> nat \<times> json" where
  "send_catch es details =
     (es @ [LogError], 500,
      JObj [(js ''error'', JStr (js ''Failed to send message'')),
            (js ''details'', JStr details)])"

definition missing_fields :: "effect list \<times> nat \<times> json" where
  "missing_fields =
     ([], 400, JObj [(js ''error'', JStr (js ''Missing required fields: to, text''))])"

text \<open>
  \<open>POST /send\<close>: the effects, the status and the JSON body of the response. \<open>body\<close> is
  \<open>req.body\<close>, \<open>None\<close> when it is \<open>undefined\<close>: destructuring \<open>undefined\<close> or \<open>null\<close>
  throws, inside the \<open>try\<close> and before \<open>isConnected\<close> is read. \<open>to\<close> and \<open>text\<close> are
  whatever JSON values the body holds. \<open>to_string\<close> is as in \<open>formattedTo\<close>, and
  \<open>type_error\<close> is the message of the
  \<open>TypeError\<close> that the run throws, when it throws one: at the destructuring, at
  \<open>to.includes\<close>, or, after the send has returned, at \<open>text.substring\<close> for a \<open>text\<close>
  that is not a string.
\<close>

definition post_send ::
  "jstring \<Rightarrow> jstring \<Rightarrow> bridge \<Rightarrow> send_outcome \<Rightarrow> jstring \<Rightarrow> json option
     \<Rightarrow> effect list \<times> nat \<times> json" where
  "post_send to_string type_error s snd_out now body =
     (case body of
        None \<Rightarrow> send_catch [] type_error
      | Some b \<Rightarrow>
          if b = JNull then send_catch [] type_error
          else if \<not> isConnected s then
            ([], 503, JObj [(js ''error'', JStr (js ''WhatsApp not connected'')),
                            (js ''status'', JStr (js ''disconnected''))])
          else
            (case get_prop b (js ''to'') of
               None \<Rightarrow> missing_fields
             | Some to \<Rightarrow>
                 (case get_prop b (js ''text'') of
                    None \<Rightarrow> missing_fields
                  | Some text \<Rightarrow>
                      if \<not> truthy to \<or> \<not> truthy text then missing_fields
                      else
                        (case formattedTo to_string to of
                           Inl e \<Rightarrow> send_catch [] type_error
                         | Inr jid \<Rightarrow>
                             (case snd_out of
                                SendFailed m \<Rightarrow> send_catch [send_call jid text] m
                              | Sent \<Rightarrow>
                                  if is_string text then
                                    ([send_call jid text, LogInfo], 200,
                                     JObj [(js ''success'', JBool True),
                                           (js ''message'', JStr (js ''Message sent successfully'')),
                                           (js ''to'', to),
                                           (js ''timestamp'', JStr now)])
                                  else send_catch [send_call jid text] type_error)))))"

section \<open>Vocabulary of the claims\<close>

text \<open>
  The resolver as the specification words it: an ordered list of candidate field
  names, the first one that matches wins.
\<close>

definition candidates :: "jstring list" where
  "candidates = [js ''reply'', js ''message'', js ''text'', js ''response'', js ''data'']"

fun first_truthy :: "json \<Rightarrow> jstring list \<Rightarrow> json option" where
  "first_truthy r [] = None"
| "first_truthy r (k # ks) =
     (if truthy_opt (get_prop r k) then get_prop r k else first_truthy r ks)"

text \<open>
  The kinds the code recognizes, read off an envelope's first field: \<open>conversation\<close>
  (plain text), \<open>extendedTextMessage\<close> (extended or quoted text), and \<open>imageMessage\<close>
  with a non-empty caption (captioned media).
\<close>

fun recognized_kind :: "wa_field \<Rightarrow> bool" where
  "recognized_kind (Conversation t) = True"
| "recognized_kind (ExtendedTextMessage t) = True"
| "recognized_kind (ImageMessage c) = (c \<noteq> None \<and> c \<noteq> Some [])"
| "recognized_kind (OtherField k) = False"

text \<open>The text member of an envelope's first field, \<open>None\<close> when it is \<open>null\<close> or absent.\<close>

fun text_field :: "wa_field \<Rightarrow> jstring option" where
  "text_field (Conversation t) = t"
| "text_field (ExtendedTextMessage t) = t"
| "text_field (ImageMessage c) = c"
| "text_field (OtherField k) = None"




section \<open>Auxiliary facts\<close>

subsection \<open>Resolver\<close>

lemma resolve_object: "resolve (JObj kvs) = first_truthy (JObj kvs) candidates"
  by (simp add: resolve_def candidates_def)

lemma resolve_string: "resolve (JStr s) = (if s = [] then None else Some (JStr s))"
  by (simp add: resolve_def)

lemma resolve_field_truthy:
  "truthy_opt (get_prop r (js ''reply'')) \<Longrightarrow> resolve r = get_prop r (js ''reply'')"
  by (cases r) (simp_all add: resolve_def)

lemma resolve_other: "\<forall>kvs. r \<noteq> JObj kvs \<Longrightarrow> \<not> is_string r \<Longrightarrow> resolve r = None"
  by (cases r) (simp_all add: resolve_def)

lemma resolve_falsy: "\<not> truthy r \<Longrightarrow> resolve r = None"
  by (simp add: resolve_def)

subsection \<open>Replacing the first occurrence\<close>

lemma replace_first_skip:
  "pat \<noteq> [] \<Longrightarrow> hd pat \<notin> set b \<Longrightarrow> replace_first pat rep (b @ s) = b @ replace_first pat rep s"
proof (induction b)
  case Nil
  then show ?case by simp
next
  case (Cons c b)
  from Cons.prems have "take (length pat) (c # b @ s) \<noteq> pat"
    by (cases pat) auto
  with Cons show ?case by simp
qed

lemma replace_first_self: "pat \<noteq> [] \<Longrightarrow> replace_first pat [] pat = []"
  by (cases pat) simp_all

lemma hd_swn: "hd (js ''@s.whatsapp.net'') = 0x40" "js ''@s.whatsapp.net'' \<noteq> []"
  by (simp_all add: js_def)

lemma hd_cus: "hd (js ''@c.us'') = 0x40" "js ''@c.us'' \<noteq> []"
  by (simp_all add: js_def)

lemma swn_in_cus: "replace_first (js ''@s.whatsapp.net'') [] (js ''@c.us'') = js ''@c.us''"
  by (simp add: js_def)

lemma clean_swn:
  assumes "0x40 \<notin> set b"
  shows "replace_first (js ''@c.us'') []
           (replace_first (js ''@s.whatsapp.net'') [] (b @ js ''@s.whatsapp.net'')) = b"
proof -
  have "replace_first (js ''@s.whatsapp.net'') [] (b @ js ''@s.whatsapp.net'') = b"
    using replace_first_skip [of "js ''@s.whatsapp.net''" b "[]" "js ''@s.whatsapp.net''"] assms
    by (simp add: hd_swn replace_first_self)
  moreover have "replace_first (js ''@c.us'') [] b = b"
    using replace_first_skip [of "js ''@c.us''" b "[]" "[]"] assms
    by (simp add: hd_cus)
  ultimately show ?thesis by simp
qed

lemma clean_cus:
  assumes "0x40 \<notin> set b"
  shows "replace_first (js ''@c.us'') []
           (replace_first (js ''@s.whatsapp.net'') [] (b @ js ''@c.us'')) = b"
proof -
  have "replace_first (js ''@s.whatsapp.net'') [] (b @ js ''@c.us'') = b @ js ''@c.us''"
    using replace_first_skip [of "js ''@s.whatsapp.net''" b "[]" "js ''@c.us''"] assms
    by (simp add: hd_swn swn_in_cus)
  moreover have "replace_first (js ''@c.us'') [] (b @ js ''@c.us'') = b"
    using replace_first_skip [of "js ''@c.us''" b "[]" "js ''@c.us''"] assms
    by (simp add: hd_cus replace_first_self)
  ultimately show ?thesis by simp
qed

subsection \<open>Trimming\<close>

lemma last_dropWhile: "dropWhile P xs \<noteq> [] \<Longrightarrow> last (dropWhile P xs) = last xs"
  by (induction xs) (auto split: if_splits)

lemma trim_ends:
  assumes "trim s \<noteq> []"
  shows "\<not> is_ws (hd (trim s)) \<and> \<not> is_ws (last (trim s))"
proof -
  let ?a = "dropWhile is_ws s"
  let ?b = "dropWhile is_ws (rev ?a)"
  from assms have b: "?b \<noteq> []" by (simp add: trim_def)
  have a: "?a \<noteq> []"
  proof
    assume "?a = []"
    then have "?b = dropWhile is_ws (rev [])" by (simp only:)
    with b show False by simp
  qed
  have "\<not> is_ws (hd ?b)" using b by (rule hd_dropWhile)
  then have l: "\<not> is_ws (last (trim s))" using b by (simp add: trim_def last_rev)
  have "last ?b = last (rev ?a)" using b by (rule last_dropWhile)
  then have "hd (trim s) = hd ?a" using a b by (simp add: trim_def hd_rev last_rev)
  moreover have "\<not> is_ws (hd ?a)" using a by (rule hd_dropWhile)
  ultimately show ?thesis using l by simp
qed

lemma trim_decomp:
  "s = takeWhile is_ws s @ trim s @ rev (takeWhile is_ws (rev (dropWhile is_ws s)))"
proof -
  let ?a = "dropWhile is_ws s"
  have "rev ?a = takeWhile is_ws (rev ?a) @ dropWhile is_ws (rev ?a)" by simp
  then have "rev (rev ?a) = rev (takeWhile is_ws (rev ?a) @ dropWhile is_ws (rev ?a))" by simp
  then have "?a = trim s @ rev (takeWhile is_ws (rev ?a))"
    by (simp add: trim_def del: takeWhile_dropWhile_id)
  moreover have "s = takeWhile is_ws s @ ?a" by simp
  ultimately show ?thesis by metis
qed

lemma all_ws_takeWhile: "\<forall>c \<in> set (takeWhile is_ws s). is_ws c"
  by (auto dest: set_takeWhileD)

lemma trim_surround:
  "\<exists>l r. s = l @ trim s @ r \<and> (\<forall>c \<in> set l. is_ws c) \<and> (\<forall>c \<in> set r. is_ws c)"
proof -
  let ?l = "takeWhile is_ws s"
  let ?r = "rev (takeWhile is_ws (rev (dropWhile is_ws s)))"
  have "s = ?l @ trim s @ ?r" by (rule trim_decomp)
  moreover have "\<forall>c \<in> set ?l. is_ws c" by (rule all_ws_takeWhile)
  moreover have "\<forall>c \<in> set ?r. is_ws c"
    using all_ws_takeWhile [of "rev (dropWhile is_ws s)"] by simp
  ultimately show ?thesis by blast
qed

subsection \<open>Where a webhook call comes from\<close>

lemma reply_no_post: "HttpPost md \<notin> set (sendWhatsAppReply so j r)"
  by (cases so) simp_all

lemma relay_post: "HttpPost md \<in> set (fst (sendToN8n http md')) \<Longrightarrow> md = md'"
  by (cases http) (simp_all split: if_splits)

lemma http_post_origin:
  assumes "HttpPost md \<in> set (handleIncomingMessage http so now m)"
  shows "normalize now m = Inr (Some md)"
proof (cases "normalize now m")
  case (Inl e)
  with assms show ?thesis by (simp add: handleIncomingMessage_def)
next
  case (Inr r)
  show ?thesis
  proof (cases r)
    case None
    with Inr assms show ?thesis by (simp add: handleIncomingMessage_def)
  next
    case (Some md')
    show ?thesis
    proof (cases "remoteJid (key m)")
      case None
      with Inr Some assms show ?thesis by (simp add: handleIncomingMessage_def)
    next
      case (Some jid)
      obtain es d where rel: "sendToN8n http md' = (es, d)" by (cases "sendToN8n http md'")
      from assms Inr \<open>r = Some md'\<close> Some rel
      have "HttpPost md \<in> set es"
        by (auto simp: handleIncomingMessage_def reply_no_post split: option.splits if_splits)
      with rel have "md = md'" using relay_post [of md http md'] by simp
      with Inr \<open>r = Some md'\<close> show ?thesis by simp
    qed
  qed
qed

lemma normalize_unrecognized:
  "select_text (case message msg of None \<Rightarrow> [] | Some fs \<Rightarrow> fs) = None
   \<Longrightarrow> normalize now msg = Inr None"
  by (cases "case message msg of None \<Rightarrow> [] | Some fs \<Rightarrow> fs") (simp_all add: normalize_def)

lemma select_text_unrecognized: "\<not> recognized_kind f \<Longrightarrow> select_text (f # fs) = None"
  by (cases f) (auto split: option.splits)

lemma select_text_recognized:
  "recognized_kind f \<Longrightarrow> text_field f = Some t \<Longrightarrow> select_text (f # fs) = Some (Some t)"
  by (cases f) auto

lemma normalize_text:
  assumes "message msg = Some (f # fs)" and "recognized_kind f" and "text_field f = Some t"
    and "remoteJid (key msg) = Some jid"
  shows "normalize now msg =
           Inr (Some \<lparr> msg_from = replace_first (js ''@c.us'') []
                                    (replace_first (js ''@s.whatsapp.net'') [] jid),
                       msg_text = trim t, timestamp = now, messageId = key_id (key msg),
                       messageType = field_name f \<rparr>)"
  using assms by (simp add: normalize_def select_text_recognized)

lemma normalized_is_posted:
  assumes "normalize now msg = Inr (Some md)" and "remoteJid (key msg) = Some jid"
  shows "HttpPost md \<in> set (handleIncomingMessage http so now msg)"
  using assms by (cases http) (simp_all add: handleIncomingMessage_def)

lemma unrecognized_no_effect:
  assumes "case message msg of None \<Rightarrow> True | Some [] \<Rightarrow> True | Some (f # fs) \<Rightarrow> \<not> recognized_kind f"
  shows "normalize now msg = Inr None" and "handleIncomingMessage http so now msg = []"
proof -
  from assms have "select_text (case message msg of None \<Rightarrow> [] | Some fs \<Rightarrow> fs) = None"
    by (auto split: option.splits list.splits simp: select_text_unrecognized)
  then show "normalize now msg = Inr None" by (rule normalize_unrecognized)
  then show "handleIncomingMessage http so now msg = []" by (simp add: handleIncomingMessage_def)
qed

subsection \<open>Relay outcomes\<close>

lemma failed_relay_trace:
  assumes "normalize now msg = Inr (Some md)" and "remoteJid (key msg) = Some jid"
  shows "handleIncomingMessage (Rejected f) so now msg =
           [LogInfo, HttpPost md, LogError] @ (if has_response f then [LogError] else []) @ [LogWarn]"
  using assms by (simp add: handleIncomingMessage_def resolve_def)

lemma falsy_relay_trace:
  assumes "normalize now msg = Inr (Some md)" and "remoteJid (key msg) = Some jid" and "\<not> truthy d"
  shows "handleIncomingMessage (Resolved d) so now msg = [LogInfo, HttpPost md, LogInfo, LogWarn]"
  using assms by (simp add: handleIncomingMessage_def resolve_def)

subsection \<open>Connection events\<close>

lemma timers_part:
  "timers (connection_part lo s u) =
     (if connection u = Some Close \<and> statusCode u \<noteq> Some lo then timers s @ [5000] else timers s)"
  by (auto simp: connection_part_def Let_def split: option.splits connection.splits)

lemma timers_update:
  "timers (on_connection_update lo s u g) =
     (if (qr u = None \<or> qr u = Some []) \<and> connection u = Some Close \<and> statusCode u \<noteq> Some lo
      then timers s @ [5000] else timers s)"
  by (auto simp: on_connection_update_def timers_part split: option.splits)

lemma timers_render:
  "timers (render_settled lo i d s) =
     (if i < length (rendering s) \<and> connection (rendering s ! i) = Some Close
         \<and> statusCode (rendering s ! i) \<noteq> Some lo
      then timers s @ [5000] else timers s)"
  by (auto simp: render_settled_def Let_def timers_part split: option.splits)

lemma run_Cons: "run lo s (e # es) = run lo (step lo s e) es"
  by (simp add: run_def)

lemma timers_closes:
  assumes "connection u = Some Close" and "statusCode u \<noteq> Some lo" and "qr u = None"
  shows "timers (run lo s (replicate n (ConnectionUpdate u g))) = timers s @ replicate n 5000"
proof (induction n arbitrary: s)
  case 0
  show ?case by (simp add: run_def)
next
  case (Suc n)
  have "timers (run lo s (replicate (Suc n) (ConnectionUpdate u g)))
        = timers (run lo (on_connection_update lo s u g) (replicate n (ConnectionUpdate u g)))"
    by (simp add: run_Cons)
  also have "\<dots> = timers (on_connection_update lo s u g) @ replicate n 5000"
    by (rule Suc.IH)
  also have "\<dots> = timers s @ replicate (Suc n) 5000"
    using assms by (simp add: timers_update)
  finally show ?case .
qed









subsection \<open>Normalizer\<close>

lemma normalize_throws:
  assumes "message msg = Some (f # fs)" and "recognized_kind f"
    and "text_field f = None \<or> remoteJid (key msg) = None"
  shows "normalize now msg = Inl TypeError"
  using assms
  by (cases f) (auto simp: normalize_def split: option.splits)

lemma thrown_is_logged:
  "normalize now msg = Inl e \<Longrightarrow> handleIncomingMessage http so now msg = [LogError]"
  by (simp add: handleIncomingMessage_def)

subsection \<open>The send endpoint\<close>

lemma formattedTo_other:
  "\<not> is_string v \<Longrightarrow> \<forall>xs. v \<noteq> JArr xs \<Longrightarrow> formattedTo a v = Inl TypeError"
  by (cases v) simp_all

section \<open>Reply resolver: field priority\<close>

text \<open>
  Claim C1, as the code has it. A candidate field matches when its value is truthy:
  for an object the result is the first truthy value among \<open>reply\<close>, \<open>message\<close>,
  \<open>text\<close>, \<open>response\<close>, \<open>data\<close>, in that order; a non-empty string is its own reply
  (none of the field names is a property of a string, so its place in the order does
  not show); whenever the \<open>reply\<close> field is truthy, whatever else is present, the
  result is the \<open>reply\<close> value; and a value that is neither an object nor a string
  resolves to nothing.
\<close>

theorem resolve_priority:
  "resolve (JObj kvs) = first_truthy (JObj kvs) candidates
   \<and> resolve (JStr s) = (if s = [] then None else Some (JStr s))
   \<and> (truthy_opt (get_prop r (js ''reply'')) \<longrightarrow> resolve r = get_prop r (js ''reply''))
   \<and> ((\<forall>kvs. r \<noteq> JObj kvs) \<and> \<not> is_string r \<longrightarrow> resolve r = None)"
  using resolve_object resolve_string resolve_field_truthy resolve_other by blast

theorem resolve_priority_witness:
  "truthy_opt (get_prop (JObj [(js ''message'', JStr (js ''Workflow was started'')),
                               (js ''reply'', JStr (js ''hi there''))]) (js ''reply''))
   \<and> resolve (JObj [(js ''message'', JStr (js ''Workflow was started'')),
                    (js ''reply'', JStr (js ''hi there''))]) = Some (JStr (js ''hi there''))
   \<and> \<not> is_string (JArr [JObj [(js ''reply'', JStr (js ''hi there''))]])
   \<and> resolve (JArr [JObj [(js ''reply'', JStr (js ''hi there''))]]) = None"
  using resolve_priority [of "[]" "[]"
          "JObj [(js ''message'', JStr (js ''Workflow was started'')),
                 (js ''reply'', JStr (js ''hi there''))]"]
        resolve_priority [of "[]" "[]" "JArr [JObj [(js ''reply'', JStr (js ''hi there''))]]"]
  by (simp add: js_def)

text \<open>
  Claim C1 as stated fails when the \<open>reply\<close> field is present but falsy: with an
  empty \<open>reply\<close> next to a \<open>message\<close>, the result is the \<open>message\<close> value.
\<close>

theorem resolve_reply_counterexample:
  "get_prop (JObj [(js ''reply'', JStr []), (js ''message'', JStr (js ''Workflow was started''))])
     (js ''reply'') = Some (JStr [])
   \<and> resolve (JObj [(js ''reply'', JStr []), (js ''message'', JStr (js ''Workflow was started''))])
     = Some (JStr (js ''Workflow was started''))"
  by (simp add: resolve_def js_def)

section \<open>Self-originated messages\<close>

text \<open>
  Claim C6. A batch whose first message is the session's own produces no effect at
  all; and whatever the batch, a payload that reaches the webhook is the
  normalization of the batch's first message, which is then not the session's own.
  (Later messages of a batch are never looked at.)
\<close>

theorem self_originated_dropped:
  "(fromMe (key m) \<longrightarrow> on_messages_upsert http so now (Some (m # ms)) ty = [])
   \<and> (HttpPost md \<in> set (on_messages_upsert http so now msgs ty) \<longrightarrow>
        (\<exists>m' ms'. msgs = Some (m' # ms') \<and> \<not> fromMe (key m') \<and> normalize now m' = Inr (Some md)))"
  by (auto simp: on_messages_upsert_def split: option.splits list.splits if_splits
           dest: http_post_origin)

theorem self_originated_dropped_witness:
  "fromMe (key \<lparr> key = \<lparr> remoteJid = Some (js ''123@s.whatsapp.net''), fromMe = True,
                         key_id = Some (js ''A1'') \<rparr>,
                 message = Some [Conversation (Some (js ''hello''))] \<rparr>)
   \<and> on_messages_upsert (Resolved (JObj [(js ''reply'', JStr (js ''hi there''))])) Sent (js ''t'')
        (Some [\<lparr> key = \<lparr> remoteJid = Some (js ''123@s.whatsapp.net''), fromMe = True,
                         key_id = Some (js ''A1'') \<rparr>,
                 message = Some [Conversation (Some (js ''hello''))] \<rparr>]) (js ''notify'') = []
   \<and> HttpPost \<lparr> msg_from = js ''123'', msg_text = js ''hello'', timestamp = js ''t'',
                 messageId = Some (js ''A1''), messageType = js ''conversation'' \<rparr>
       \<in> set (on_messages_upsert (Resolved (JObj [(js ''reply'', JStr (js ''hi there''))])) Sent
                (js ''t'')
                (Some [\<lparr> key = \<lparr> remoteJid = Some (js ''123@s.whatsapp.net''), fromMe = False,
                                 key_id = Some (js ''A1'') \<rparr>,
                         message = Some [Conversation (Some (js '' hello ''))] \<rparr>]) (js ''notify''))
   \<and> normalize (js ''t'')
         \<lparr> key = \<lparr> remoteJid = Some (js ''123@s.whatsapp.net''), fromMe = False,
                    key_id = Some (js ''A1'') \<rparr>,
            message = Some [Conversation (Some (js '' hello ''))] \<rparr>
       = Inr (Some \<lparr> msg_from = js ''123'', msg_text = js ''hello'', timestamp = js ''t'',
                     messageId = Some (js ''A1''), messageType = js ''conversation'' \<rparr>)"
proof -
  have post: "HttpPost \<lparr> msg_from = js ''123'', msg_text = js ''hello'', timestamp = js ''t'',
                 messageId = Some (js ''A1''), messageType = js ''conversation'' \<rparr>
       \<in> set (on_messages_upsert (Resolved (JObj [(js ''reply'', JStr (js ''hi there''))])) Sent
                (js ''t'')
                (Some [\<lparr> key = \<lparr> remoteJid = Some (js ''123@s.whatsapp.net''), fromMe = False,
                                 key_id = Some (js ''A1'') \<rparr>,
                         message = Some [Conversation (Some (js '' hello ''))] \<rparr>]) (js ''notify''))"
    by (simp add: on_messages_upsert_def handleIncomingMessage_def normalize_def resolve_def
          trim_def is_ws_def js_def)
  show ?thesis
    using post
      self_originated_dropped [of
        "\<lparr> key = \<lparr> remoteJid = Some (js ''123@s.whatsapp.net''), fromMe = True,
                         key_id = Some (js ''A1'') \<rparr>,
                 message = Some [Conversation (Some (js ''hello''))] \<rparr>"
        "Resolved (JObj [(js ''reply'', JStr (js ''hi there''))])" Sent "js ''t''" "[]" "js ''notify''"
        "\<lparr> msg_from = js ''123'', msg_text = js ''hello'', timestamp = js ''t'',
                 messageId = Some (js ''A1''), messageType = js ''conversation'' \<rparr>"
        "Some [\<lparr> key = \<lparr> remoteJid = Some (js ''123@s.whatsapp.net''), fromMe = False,
                                 key_id = Some (js ''A1'') \<rparr>,
                         message = Some [Conversation (Some (js '' hello ''))] \<rparr>]"]
    by simp
qed

section \<open>Inbound normalizer\<close>

text \<open>
  Claim C4, as the code has it. The kind of an envelope is its first key. When the
  first key is \<open>conversation\<close> or \<open>extendedTextMessage\<close>, or \<open>imageMessage\<close> with a
  non-empty caption, and the text and the sender address are strings, the envelope is
  normalized: the payload's text is the trimmed text (nothing but white space was cut,
  and no white space is left at either end) and its sender is the address without
  the first \<open>@s.whatsapp.net\<close> and the first \<open>@c.us\<close>, hence the bare identifier of an
  address \<open>b@s.whatsapp.net\<close> or \<open>b@c.us\<close>. An envelope with no key, or whose first
  key is any other, is not normalized and the handler does nothing. When the first
  key is one of the three but the text or the sender address is not a string, there
  is neither a payload nor a silent drop: the exception is caught and logged, and
  nothing is forwarded.
\<close>

theorem normalize_by_first_key:
  "(message msg = Some (f # fs) \<and> recognized_kind f \<and> text_field f = Some t
      \<and> remoteJid (key msg) = Some jid \<longrightarrow>
      (\<exists>md. normalize now msg = Inr (Some md)
         \<and> msg_text md = trim t
         \<and> (msg_text md = [] \<or> \<not> is_ws (hd (msg_text md)) \<and> \<not> is_ws (last (msg_text md)))
         \<and> (\<exists>l r. t = l @ msg_text md @ r \<and> (\<forall>c \<in> set l. is_ws c) \<and> (\<forall>c \<in> set r. is_ws c))
         \<and> msg_from md = replace_first (js ''@c.us'') []
                            (replace_first (js ''@s.whatsapp.net'') [] jid)
         \<and> (\<forall>b. 0x40 \<notin> set b \<and> (jid = b @ js ''@s.whatsapp.net'' \<or> jid = b @ js ''@c.us'')
                \<longrightarrow> msg_from md = b)))
   \<and> ((case message msg of None \<Rightarrow> True | Some [] \<Rightarrow> True
        | Some (f # fs) \<Rightarrow> \<not> recognized_kind f) \<longrightarrow>
        normalize now msg = Inr None \<and> handleIncomingMessage http so now msg = [])
   \<and> (message msg = Some (f # fs) \<and> recognized_kind f
        \<and> (text_field f = None \<or> remoteJid (key msg) = None) \<longrightarrow>
        normalize now msg = Inl TypeError \<and> handleIncomingMessage http so now msg = [LogError])"
proof (intro conjI impI)
  assume h: "message msg = Some (f # fs) \<and> recognized_kind f \<and> text_field f = Some t
      \<and> remoteJid (key msg) = Some jid"
  let ?md = "\<lparr> msg_from = replace_first (js ''@c.us'') []
                                    (replace_first (js ''@s.whatsapp.net'') [] jid),
                       msg_text = trim t, timestamp = now, messageId = key_id (key msg),
                       messageType = field_name f \<rparr>"
  from h have n: "normalize now msg = Inr (Some ?md)" by (simp add: normalize_text)
  have e: "msg_text ?md = [] \<or> \<not> is_ws (hd (msg_text ?md)) \<and> \<not> is_ws (last (msg_text ?md))"
    using trim_ends [of t] by auto
  have d: "\<exists>l r. t = l @ msg_text ?md @ r \<and> (\<forall>c \<in> set l. is_ws c) \<and> (\<forall>c \<in> set r. is_ws c)"
    using trim_surround [of t] by simp
  have c: "\<forall>b. 0x40 \<notin> set b \<and> (jid = b @ js ''@s.whatsapp.net'' \<or> jid = b @ js ''@c.us'')
                \<longrightarrow> msg_from ?md = b"
    by (auto simp: clean_swn clean_cus)
  from n e d c show "\<exists>md. normalize now msg = Inr (Some md)
         \<and> msg_text md = trim t
         \<and> (msg_text md = [] \<or> \<not> is_ws (hd (msg_text md)) \<and> \<not> is_ws (last (msg_text md)))
         \<and> (\<exists>l r. t = l @ msg_text md @ r \<and> (\<forall>c \<in> set l. is_ws c) \<and> (\<forall>c \<in> set r. is_ws c))
         \<and> msg_from md = replace_first (js ''@c.us'') []
                            (replace_first (js ''@s.whatsapp.net'') [] jid)
         \<and> (\<forall>b. 0x40 \<notin> set b \<and> (jid = b @ js ''@s.whatsapp.net'' \<or> jid = b @ js ''@c.us'')
                \<longrightarrow> msg_from md = b)"
    by (intro exI [of _ ?md]) simp
next
  assume "case message msg of None \<Rightarrow> True | Some [] \<Rightarrow> True
        | Some (f # fs) \<Rightarrow> \<not> recognized_kind f"
  then show "normalize now msg = Inr None" by (rule unrecognized_no_effect)
next
  assume "case message msg of None \<Rightarrow> True | Some [] \<Rightarrow> True
        | Some (f # fs) \<Rightarrow> \<not> recognized_kind f"
  then show "handleIncomingMessage http so now msg = []" by (rule unrecognized_no_effect)
next
  assume h: "message msg = Some (f # fs) \<and> recognized_kind f
        \<and> (text_field f = None \<or> remoteJid (key msg) = None)"
  then show n: "normalize now msg = Inl TypeError" by (simp add: normalize_throws)
  then show "handleIncomingMessage http so now msg = [LogError]" by (rule thrown_is_logged)
qed

theorem normalize_by_first_key_witness:
  "recognized_kind (Conversation (Some (js '' hello '')))
   \<and> text_field (Conversation (Some (js '' hello ''))) = Some (js '' hello '')
   \<and> (\<exists>md. normalize (js ''t'')
               \<lparr> key = \<lparr> remoteJid = Some (js ''123@s.whatsapp.net''), fromMe = False,
                          key_id = Some (js ''A1'') \<rparr>,
                  message = Some [Conversation (Some (js '' hello ''))] \<rparr> = Inr (Some md)
          \<and> msg_text md = js ''hello'' \<and> msg_from md = js ''123'')
   \<and> \<not> recognized_kind (OtherField (js ''videoMessage''))
   \<and> normalize (js ''t'')
         \<lparr> key = \<lparr> remoteJid = Some (js ''123@s.whatsapp.net''), fromMe = False,
                    key_id = Some (js ''A2'') \<rparr>,
            message = Some [OtherField (js ''videoMessage'')] \<rparr> = Inr None
   \<and> handleIncomingMessage (Resolved (JObj [(js ''reply'', JStr (js ''hi there''))])) Sent (js ''t'')
         \<lparr> key = \<lparr> remoteJid = Some (js ''123@s.whatsapp.net''), fromMe = False,
                    key_id = Some (js ''A2'') \<rparr>,
            message = Some [OtherField (js ''videoMessage'')] \<rparr> = []
   \<and> recognized_kind (Conversation None)
   \<and> text_field (Conversation None) = None
   \<and> normalize (js ''t'')
         \<lparr> key = \<lparr> remoteJid = Some (js ''123@s.whatsapp.net''), fromMe = False,
                    key_id = Some (js ''A3'') \<rparr>,
            message = Some [Conversation None] \<rparr> = Inl TypeError
   \<and> handleIncomingMessage (Resolved (JObj [(js ''reply'', JStr (js ''hi there''))])) Sent (js ''t'')
         \<lparr> key = \<lparr> remoteJid = Some (js ''123@s.whatsapp.net''), fromMe = False,
                    key_id = Some (js ''A3'') \<rparr>,
            message = Some [Conversation None] \<rparr> = [LogError]"
proof -
  have t: "trim (js '' hello '') = js ''hello''"
    by (simp add: trim_def is_ws_def js_def)
  have b: "0x40 \<notin> set (js ''123'')"
    and j: "js ''123@s.whatsapp.net'' = js ''123'' @ js ''@s.whatsapp.net''"
    by (simp_all add: js_def)
  have r: "\<exists>md. normalize (js ''t'')
               \<lparr> key = \<lparr> remoteJid = Some (js ''123@s.whatsapp.net''), fromMe = False,
                          key_id = Some (js ''A1'') \<rparr>,
                  message = Some [Conversation (Some (js '' hello ''))] \<rparr> = Inr (Some md)
          \<and> msg_text md = js ''hello'' \<and> msg_from md = js ''123''"
    using normalize_by_first_key [of
        "\<lparr> key = \<lparr> remoteJid = Some (js ''123@s.whatsapp.net''), fromMe = False,
                          key_id = Some (js ''A1'') \<rparr>,
                  message = Some [Conversation (Some (js '' hello ''))] \<rparr>"
        "Conversation (Some (js '' hello ''))" "[]" "js '' hello ''" "js ''123@s.whatsapp.net''"
        "js ''t''"] t b j
    by (metis message_key.select_convs(1) recognized_kind.simps(1) text_field.simps(1)
          wa_message.select_convs(1) wa_message.select_convs(2))
  have u: "normalize (js ''t'')
         \<lparr> key = \<lparr> remoteJid = Some (js ''123@s.whatsapp.net''), fromMe = False,
                    key_id = Some (js ''A2'') \<rparr>,
            message = Some [OtherField (js ''videoMessage'')] \<rparr> = Inr None
   \<and> handleIncomingMessage (Resolved (JObj [(js ''reply'', JStr (js ''hi there''))])) Sent (js ''t'')
         \<lparr> key = \<lparr> remoteJid = Some (js ''123@s.whatsapp.net''), fromMe = False,
                    key_id = Some (js ''A2'') \<rparr>,
            message = Some [OtherField (js ''videoMessage'')] \<rparr> = []"
    using normalize_by_first_key [of
        "\<lparr> key = \<lparr> remoteJid = Some (js ''123@s.whatsapp.net''), fromMe = False,
                    key_id = Some (js ''A2'') \<rparr>,
            message = Some [OtherField (js ''videoMessage'')] \<rparr>" _ _ _ _ "js ''t''"
        "Resolved (JObj [(js ''reply'', JStr (js ''hi there''))])" Sent]
    by simp
  have x: "normalize (js ''t'')
         \<lparr> key = \<lparr> remoteJid = Some (js ''123@s.whatsapp.net''), fromMe = False,
                    key_id = Some (js ''A3'') \<rparr>,
            message = Some [Conversation None] \<rparr> = Inl TypeError
   \<and> handleIncomingMessage (Resolved (JObj [(js ''reply'', JStr (js ''hi there''))])) Sent (js ''t'')
         \<lparr> key = \<lparr> remoteJid = Some (js ''123@s.whatsapp.net''), fromMe = False,
                    key_id = Some (js ''A3'') \<rparr>,
            message = Some [Conversation None] \<rparr> = [LogError]"
    using normalize_by_first_key [of
        "\<lparr> key = \<lparr> remoteJid = Some (js ''123@s.whatsapp.net''), fromMe = False,
                    key_id = Some (js ''A3'') \<rparr>,
            message = Some [Conversation None] \<rparr>" "Conversation None" "[]" _ _ "js ''t''"
        "Resolved (JObj [(js ''reply'', JStr (js ''hi there''))])" Sent]
    by simp
  from r u x show ?thesis by simp
qed

text \<open>
  Claim C4 as stated fails on two envelopes of a recognized kind: a plain text message
  whose \<open>conversation\<close> key comes second is dropped as unrecognized, and an extended
  text message whose text is \<open>null\<close> gives neither a payload nor \<open>null\<close> but an
  exception, which the handler logs.
\<close>

theorem recognized_not_normalized_counterexample:
  "normalize (js ''t'')
     \<lparr> key = \<lparr> remoteJid = Some (js ''123@s.whatsapp.net''), fromMe = False,
                key_id = Some (js ''A1'') \<rparr>,
        message = Some [OtherField (js ''senderKeyDistributionMessage''),
                        Conversation (Some (js ''hello''))] \<rparr> = Inr None
   \<and> normalize (js ''t'')
     \<lparr> key = \<lparr> remoteJid = Some (js ''123@s.whatsapp.net''), fromMe = False,
                key_id = Some (js ''A2'') \<rparr>,
        message = Some [ExtendedTextMessage None] \<rparr> = Inl TypeError
   \<and> handleIncomingMessage (Resolved (JObj [(js ''reply'', JStr (js ''hi there''))])) Sent (js ''t'')
     \<lparr> key = \<lparr> remoteJid = Some (js ''123@s.whatsapp.net''), fromMe = False,
                key_id = Some (js ''A2'') \<rparr>,
        message = Some [ExtendedTextMessage None] \<rparr> = [LogError]"
  by (simp add: normalize_def handleIncomingMessage_def)

section \<open>Empty text\<close>

text \<open>
  Claim C5, as the code has it. The text of an envelope of a recognized kind is
  forwarded to the webhook whatever is left of it after trimming, nothing included.
  The exception is an image whose caption is the empty string before trimming: the
  caption is tested as a condition, so the image is dropped like one without a
  caption.
\<close>

theorem text_forwarded:
  "(message msg = Some (f # fs) \<and> recognized_kind f \<and> text_field f = Some t
      \<and> remoteJid (key msg) = Some jid \<longrightarrow>
      (\<exists>md. msg_text md = trim t \<and> HttpPost md \<in> set (handleIncomingMessage http so now msg)))
   \<and> (message msg = Some (ImageMessage (Some []) # fs) \<longrightarrow>
        handleIncomingMessage http so now msg = [])"
proof (intro conjI impI)
  assume h: "message msg = Some (f # fs) \<and> recognized_kind f \<and> text_field f = Some t
      \<and> remoteJid (key msg) = Some jid"
  let ?md = "\<lparr> msg_from = replace_first (js ''@c.us'') []
                                    (replace_first (js ''@s.whatsapp.net'') [] jid),
                       msg_text = trim t, timestamp = now, messageId = key_id (key msg),
                       messageType = field_name f \<rparr>"
  from h have "normalize now msg = Inr (Some ?md)" by (simp add: normalize_text)
  with h have "HttpPost ?md \<in> set (handleIncomingMessage http so now msg)"
    by (simp add: normalized_is_posted)
  then show "\<exists>md. msg_text md = trim t \<and> HttpPost md \<in> set (handleIncomingMessage http so now msg)"
    by (intro exI [of _ ?md]) simp
next
  assume "message msg = Some (ImageMessage (Some []) # fs)"
  then show "handleIncomingMessage http so now msg = []"
    by (simp add: unrecognized_no_effect)
qed

theorem text_forwarded_witness:
  "recognized_kind (Conversation (Some (js ''  '')))
   \<and> text_field (Conversation (Some (js ''  ''))) = Some (js ''  '')
   \<and> trim (js ''  '') = []
   \<and> (\<exists>md. msg_text md = []
          \<and> HttpPost md \<in> set (handleIncomingMessage (Rejected Timeout) Sent (js ''t'')
               \<lparr> key = \<lparr> remoteJid = Some (js ''123@s.whatsapp.net''), fromMe = False,
                          key_id = Some (js ''A1'') \<rparr>,
                  message = Some [Conversation (Some (js ''  ''))] \<rparr>))
   \<and> handleIncomingMessage (Rejected Timeout) Sent (js ''t'')
         \<lparr> key = \<lparr> remoteJid = Some (js ''123@s.whatsapp.net''), fromMe = False,
                    key_id = Some (js ''A2'') \<rparr>,
            message = Some [ImageMessage (Some []), OtherField (js ''messageContextInfo'')] \<rparr> = []"
proof -
  have t: "trim (js ''  '') = []"
    by (simp add: trim_def is_ws_def js_def)
  have r: "\<exists>md. msg_text md = []
          \<and> HttpPost md \<in> set (handleIncomingMessage (Rejected Timeout) Sent (js ''t'')
               \<lparr> key = \<lparr> remoteJid = Some (js ''123@s.whatsapp.net''), fromMe = False,
                          key_id = Some (js ''A1'') \<rparr>,
                  message = Some [Conversation (Some (js ''  ''))] \<rparr>)"
    using text_forwarded [of
        "\<lparr> key = \<lparr> remoteJid = Some (js ''123@s.whatsapp.net''), fromMe = False,
                          key_id = Some (js ''A1'') \<rparr>,
                  message = Some [Conversation (Some (js ''  ''))] \<rparr>"
        "Conversation (Some (js ''  ''))" "[]" "js ''  ''" "js ''123@s.whatsapp.net''"
        "Rejected Timeout" Sent "js ''t''"] t
    by simp
  have u: "handleIncomingMessage (Rejected Timeout) Sent (js ''t'')
         \<lparr> key = \<lparr> remoteJid = Some (js ''123@s.whatsapp.net''), fromMe = False,
                    key_id = Some (js ''A2'') \<rparr>,
            message = Some [ImageMessage (Some []), OtherField (js ''messageContextInfo'')] \<rparr> = []"
    using text_forwarded [of
        "\<lparr> key = \<lparr> remoteJid = Some (js ''123@s.whatsapp.net''), fromMe = False,
                    key_id = Some (js ''A2'') \<rparr>,
            message = Some [ImageMessage (Some []), OtherField (js ''messageContextInfo'')] \<rparr>"
        _ "[OtherField (js ''messageContextInfo'')]" _ _ "Rejected Timeout" Sent "js ''t''"]
    by simp
  from t r u show ?thesis by simp
qed

text \<open>
  Claim C5 as stated fails for an image whose caption is present and empty: its text
  field exists and is empty after trimming, and nothing is forwarded.
\<close>

theorem empty_caption_counterexample:
  "text_field (ImageMessage (Some [])) = Some []
   \<and> trim [] = []
   \<and> handleIncomingMessage (Resolved (JObj [(js ''reply'', JStr (js ''hi there''))])) Sent (js ''t'')
         \<lparr> key = \<lparr> remoteJid = Some (js ''123@s.whatsapp.net''), fromMe = False,
                    key_id = Some (js ''A2'') \<rparr>,
            message = Some [ImageMessage (Some [])] \<rparr> = []"
  by (simp add: trim_def handleIncomingMessage_def normalize_def)

section \<open>Relay failures\<close>

text \<open>
  Claim C7, as the code has it. When the webhook call fails, by a network error, a
  timeout or a status outside 2xx, the relay makes that one call, logs the error (and
  the response body when there is one) and returns \<open>null\<close>: no outcome record, no
  classification. The handler then sends no reply and logs a warning.
\<close>

theorem relay_failure_dropped:
  "sendToN8n (Rejected f) md =
     ([HttpPost md, LogError] @ (if has_response f then [LogError] else []), JNull)
   \<and> (normalize now msg = Inr (Some md) \<and> remoteJid (key msg) = Some jid \<longrightarrow>
        handleIncomingMessage (Rejected f) so now msg =
          [LogInfo, HttpPost md, LogError] @ (if has_response f then [LogError] else []) @ [LogWarn])"
  by (simp add: failed_relay_trace)

theorem relay_failure_dropped_witness:
  "normalize (js ''t'')
         \<lparr> key = \<lparr> remoteJid = Some (js ''123@s.whatsapp.net''), fromMe = False,
                    key_id = Some (js ''A1'') \<rparr>,
            message = Some [Conversation (Some (js ''hello''))] \<rparr>
     = Inr (Some \<lparr> msg_from = js ''123'', msg_text = js ''hello'', timestamp = js ''t'',
            messageId = Some (js ''A1''), messageType = js ''conversation'' \<rparr>)
   \<and> remoteJid (key \<lparr> key = \<lparr> remoteJid = Some (js ''123@s.whatsapp.net''), fromMe = False,
                    key_id = Some (js ''A1'') \<rparr>,
            message = Some [Conversation (Some (js ''hello''))] \<rparr>) = Some (js ''123@s.whatsapp.net'')
   \<and> handleIncomingMessage (Rejected (HTTPStatus 500 (JStr (js ''Internal Server Error'')))) Sent
         (js ''t'')
         \<lparr> key = \<lparr> remoteJid = Some (js ''123@s.whatsapp.net''), fromMe = False,
                    key_id = Some (js ''A1'') \<rparr>,
            message = Some [Conversation (Some (js ''hello''))] \<rparr>
     = [LogInfo,
        HttpPost \<lparr> msg_from = js ''123'', msg_text = js ''hello'', timestamp = js ''t'',
            messageId = Some (js ''A1''), messageType = js ''conversation'' \<rparr>,
        LogError, LogError, LogWarn]"
proof -
  have n: "normalize (js ''t'')
         \<lparr> key = \<lparr> remoteJid = Some (js ''123@s.whatsapp.net''), fromMe = False,
                    key_id = Some (js ''A1'') \<rparr>,
            message = Some [Conversation (Some (js ''hello''))] \<rparr>
     = Inr (Some \<lparr> msg_from = js ''123'', msg_text = js ''hello'', timestamp = js ''t'',
            messageId = Some (js ''A1''), messageType = js ''conversation'' \<rparr>)"
    by (simp add: normalize_def trim_def is_ws_def js_def)
  show ?thesis
    using n relay_failure_dropped [of "HTTPStatus 500 (JStr (js ''Internal Server Error''))"
        "\<lparr> msg_from = js ''123'', msg_text = js ''hello'', timestamp = js ''t'',
            messageId = Some (js ''A1''), messageType = js ''conversation'' \<rparr>"
        "js ''t''"
        "\<lparr> key = \<lparr> remoteJid = Some (js ''123@s.whatsapp.net''), fromMe = False,
                    key_id = Some (js ''A1'') \<rparr>,
            message = Some [Conversation (Some (js ''hello''))] \<rparr>"
        "js ''123@s.whatsapp.net''" Sent]
    by simp
qed

text \<open>
  Claim C7 as stated fails: the relay's result is the same \<open>null\<close> for each kind of
  failure, and for a successful call whose body is \<open>null\<close>, so it carries neither a
  \<open>succeeded\<close> flag nor an error classification.
\<close>

theorem relay_outcome_counterexample:
  "snd (sendToN8n (Rejected NetworkError)
          \<lparr> msg_from = js ''123'', msg_text = js ''hello'', timestamp = js ''t'',
            messageId = Some (js ''A1''), messageType = js ''conversation'' \<rparr>) = JNull
   \<and> snd (sendToN8n (Rejected Timeout)
          \<lparr> msg_from = js ''123'', msg_text = js ''hello'', timestamp = js ''t'',
            messageId = Some (js ''A1''), messageType = js ''conversation'' \<rparr>) = JNull
   \<and> snd (sendToN8n (Rejected (HTTPStatus 500 (JStr (js ''Internal Server Error''))))
          \<lparr> msg_from = js ''123'', msg_text = js ''hello'', timestamp = js ''t'',
            messageId = Some (js ''A1''), messageType = js ''conversation'' \<rparr>) = JNull
   \<and> snd (sendToN8n (Resolved JNull)
          \<lparr> msg_from = js ''123'', msg_text = js ''hello'', timestamp = js ''t'',
            messageId = Some (js ''A1''), messageType = js ''conversation'' \<rparr>) = JNull"
  by simp

section \<open>Falsy response bodies\<close>

text \<open>
  Claim C10, as the code has it. After a successful webhook call with a falsy body
  the relay returns that body as it is; nothing is resolved from it, no reply is
  sent and the handler logs a warning, as after a failed call. The relay's result is
  the \<open>null\<close> of a failed call when the body is \<open>null\<close>.
\<close>

theorem falsy_body_no_reply:
  "(\<not> truthy d \<longrightarrow>
      snd (sendToN8n (Resolved d) md) = d \<and> resolve d = None
      \<and> (normalize now msg = Inr (Some md) \<and> remoteJid (key msg) = Some jid \<longrightarrow>
           handleIncomingMessage (Resolved d) so now msg = [LogInfo, HttpPost md, LogInfo, LogWarn]))
   \<and> snd (sendToN8n (Resolved JNull) md) = snd (sendToN8n (Rejected f) md)
   \<and> resolve (snd (sendToN8n (Rejected f) md)) = None"
  by (simp add: falsy_relay_trace resolve_falsy)

theorem falsy_body_no_reply_witness:
  "\<not> truthy (JStr [])
   \<and> normalize (js ''t'')
         \<lparr> key = \<lparr> remoteJid = Some (js ''123@s.whatsapp.net''), fromMe = False,
                    key_id = Some (js ''A1'') \<rparr>,
            message = Some [Conversation (Some (js ''hello''))] \<rparr>
     = Inr (Some \<lparr> msg_from = js ''123'', msg_text = js ''hello'', timestamp = js ''t'',
            messageId = Some (js ''A1''), messageType = js ''conversation'' \<rparr>)
   \<and> snd (sendToN8n (Resolved (JStr []))
          \<lparr> msg_from = js ''123'', msg_text = js ''hello'', timestamp = js ''t'',
            messageId = Some (js ''A1''), messageType = js ''conversation'' \<rparr>) = JStr []
   \<and> handleIncomingMessage (Resolved (JStr [])) Sent (js ''t'')
         \<lparr> key = \<lparr> remoteJid = Some (js ''123@s.whatsapp.net''), fromMe = False,
                    key_id = Some (js ''A1'') \<rparr>,
            message = Some [Conversation (Some (js ''hello''))] \<rparr>
     = [LogInfo,
        HttpPost \<lparr> msg_from = js ''123'', msg_text = js ''hello'', timestamp = js ''t'',
            messageId = Some (js ''A1''), messageType = js ''conversation'' \<rparr>,
        LogInfo, LogWarn]"
proof -
  have n: "normalize (js ''t'')
         \<lparr> key = \<lparr> remoteJid = Some (js ''123@s.whatsapp.net''), fromMe = False,
                    key_id = Some (js ''A1'') \<rparr>,
            message = Some [Conversation (Some (js ''hello''))] \<rparr>
     = Inr (Some \<lparr> msg_from = js ''123'', msg_text = js ''hello'', timestamp = js ''t'',
            messageId = Some (js ''A1''), messageType = js ''conversation'' \<rparr>)"
    by (simp add: normalize_def trim_def is_ws_def js_def)
  show ?thesis
    using n falsy_body_no_reply [of "JStr []"
        "\<lparr> msg_from = js ''123'', msg_text = js ''hello'', timestamp = js ''t'',
            messageId = Some (js ''A1''), messageType = js ''conversation'' \<rparr>"
        "js ''t''"
        "\<lparr> key = \<lparr> remoteJid = Some (js ''123@s.whatsapp.net''), fromMe = False,
                    key_id = Some (js ''A1'') \<rparr>,
            message = Some [Conversation (Some (js ''hello''))] \<rparr>"
        "js ''123@s.whatsapp.net''" Sent]
    by simp
qed

text \<open>
  Claim C10 as stated fails for an empty body: the relay returns the empty string,
  not \<open>null\<close>, so its result differs from that of a failed call.
\<close>

theorem empty_body_counterexample:
  "snd (sendToN8n (Resolved (JStr []))
          \<lparr> msg_from = js ''123'', msg_text = js ''hello'', timestamp = js ''t'',
            messageId = Some (js ''A1''), messageType = js ''conversation'' \<rparr>) = JStr []
   \<and> snd (sendToN8n (Rejected Timeout)
          \<lparr> msg_from = js ''123'', msg_text = js ''hello'', timestamp = js ''t'',
            messageId = Some (js ''A1''), messageType = js ''conversation'' \<rparr>) = JNull
   \<and> snd (sendToN8n (Resolved (JStr []))
          \<lparr> msg_from = js ''123'', msg_text = js ''hello'', timestamp = js ''t'',
            messageId = Some (js ''A1''), messageType = js ''conversation'' \<rparr>)
     \<noteq> snd (sendToN8n (Rejected Timeout)
          \<lparr> msg_from = js ''123'', msg_text = js ''hello'', timestamp = js ''t'',
            messageId = Some (js ''A1''), messageType = js ''conversation'' \<rparr>)"
  by simp

section \<open>The send endpoint\<close>

text \<open>
  Claim C9, as the code has it. For a request whose body was parsed, the checks of
  \<open>POST /send\<close> are ordered: 503 with the fixed body whenever the bridge is not
  connected, whatever the body holds; when connected, 400 whenever \<open>to\<close> or \<open>text\<close>
  is missing or falsy; otherwise, for strings \<open>to\<close> and \<open>text\<close>, 200 with
  \<open>{success, message, to, timestamp}\<close> when the send returns and 500 with
  \<open>{error, details}\<close> when it throws. The values are not validated: a truthy \<open>to\<close>
  that is neither a string nor an array ends in 500 before any send, and a truthy
  \<open>text\<close> that is not a string ends in 500 after the send has returned; for every
  truthy \<open>to\<close> and \<open>text\<close> the response follows from \<open>formattedTo\<close> and the outcome of
  the send. Without a parsed body the answer is 500.
\<close>

theorem post_send_responses:
  "(body = Some b \<and> b \<noteq> JNull \<and> \<not> isConnected s \<longrightarrow>
      post_send to_string type_error s so now body =
        ([], 503, JObj [(js ''error'', JStr (js ''WhatsApp not connected'')),
                        (js ''status'', JStr (js ''disconnected''))]))
   \<and> (body = Some b \<and> b \<noteq> JNull \<and> isConnected s
        \<and> (\<not> truthy_opt (get_prop b (js ''to'')) \<or> \<not> truthy_opt (get_prop b (js ''text''))) \<longrightarrow>
        post_send to_string type_error s so now body =
          ([], 400, JObj [(js ''error'', JStr (js ''Missing required fields: to, text''))]))
   \<and> (body = Some b \<and> isConnected s \<and> get_prop b (js ''to'') = Some (JStr to_id) \<and> to_id \<noteq> []
        \<and> get_prop b (js ''text'') = Some (JStr tx) \<and> tx \<noteq> [] \<longrightarrow>
        post_send to_string type_error s Sent now body =
          ([SockSendMessage (if 0x40 \<in> set to_id then to_id else to_id @ js ''@s.whatsapp.net'')
              (JStr tx), LogInfo], 200,
           JObj [(js ''success'', JBool True),
                 (js ''message'', JStr (js ''Message sent successfully'')),
                 (js ''to'', JStr to_id),
                 (js ''timestamp'', JStr now)])
        \<and> post_send to_string type_error s (SendFailed m) now body =
          ([SockSendMessage (if 0x40 \<in> set to_id then to_id else to_id @ js ''@s.whatsapp.net'')
              (JStr tx), LogError], 500,
           JObj [(js ''error'', JStr (js ''Failed to send message'')),
                 (js ''details'', JStr m)]))
   \<and> (body = Some b \<and> isConnected s \<and> get_prop b (js ''to'') = Some v \<and> truthy v
        \<and> \<not> is_string v \<and> (\<forall>xs. v \<noteq> JArr xs) \<and> truthy_opt (get_prop b (js ''text'')) \<longrightarrow>
        post_send to_string type_error s so now body =
          ([LogError], 500,
           JObj [(js ''error'', JStr (js ''Failed to send message'')),
                 (js ''details'', JStr type_error)]))
   \<and> (body = Some b \<and> isConnected s \<and> get_prop b (js ''to'') = Some (JStr to_id) \<and> to_id \<noteq> []
        \<and> get_prop b (js ''text'') = Some x \<and> truthy x \<and> \<not> is_string x \<longrightarrow>
        post_send to_string type_error s Sent now body =
          ([SockSendMessage (if 0x40 \<in> set to_id then to_id else to_id @ js ''@s.whatsapp.net'') x,
            LogError], 500,
           JObj [(js ''error'', JStr (js ''Failed to send message'')),
                 (js ''details'', JStr type_error)]))
   \<and> (body = Some b \<and> isConnected s \<and> get_prop b (js ''to'') = Some v \<and> truthy v
        \<and> get_prop b (js ''text'') = Some x \<and> truthy x \<and> formattedTo to_string v = Inr jid \<longrightarrow>
        post_send to_string type_error s (SendFailed m) now body =
          ([send_call jid x, LogError], 500,
           JObj [(js ''error'', JStr (js ''Failed to send message'')),
                 (js ''details'', JStr m)])
        \<and> post_send to_string type_error s Sent now body =
          (if is_string x then
             ([send_call jid x, LogInfo], 200,
           JObj [(js ''success'', JBool True),
                 (js ''message'', JStr (js ''Message sent successfully'')),
                 (js ''to'', v),
                 (js ''timestamp'', JStr now)])
           else
             ([send_call jid x, LogError], 500,
           JObj [(js ''error'', JStr (js ''Failed to send message'')),
                 (js ''details'', JStr type_error)])))
   \<and> (body = None \<or> body = Some JNull \<longrightarrow>
        post_send to_string type_error s so now body =
          ([LogError], 500,
           JObj [(js ''error'', JStr (js ''Failed to send message'')),
                 (js ''details'', JStr type_error)]))"
proof (intro conjI impI)
  assume "body = Some b \<and> b \<noteq> JNull \<and> \<not> isConnected s"
  then show "post_send to_string type_error s so now body =
        ([], 503, JObj [(js ''error'', JStr (js ''WhatsApp not connected'')),
                        (js ''status'', JStr (js ''disconnected''))])"
    by (simp add: post_send_def)
next
  assume "body = Some b \<and> b \<noteq> JNull \<and> isConnected s
        \<and> (\<not> truthy_opt (get_prop b (js ''to'')) \<or> \<not> truthy_opt (get_prop b (js ''text'')))"
  then show "post_send to_string type_error s so now body =
          ([], 400, JObj [(js ''error'', JStr (js ''Missing required fields: to, text''))])"
    by (auto simp: post_send_def missing_fields_def split: option.splits)
next
  assume h: "body = Some b \<and> isConnected s \<and> get_prop b (js ''to'') = Some (JStr to_id) \<and> to_id \<noteq> []
        \<and> get_prop b (js ''text'') = Some (JStr tx) \<and> tx \<noteq> []"
  then have nn: "b \<noteq> JNull" by auto
  from h nn show "post_send to_string type_error s Sent now body =
          ([SockSendMessage (if 0x40 \<in> set to_id then to_id else to_id @ js ''@s.whatsapp.net'')
              (JStr tx), LogInfo], 200,
           JObj [(js ''success'', JBool True),
                 (js ''message'', JStr (js ''Message sent successfully'')),
                 (js ''to'', JStr to_id),
                 (js ''timestamp'', JStr now)])"
    by (simp add: post_send_def)
  from h nn show "post_send to_string type_error s (SendFailed m) now body =
          ([SockSendMessage (if 0x40 \<in> set to_id then to_id else to_id @ js ''@s.whatsapp.net'')
              (JStr tx), LogError], 500,
           JObj [(js ''error'', JStr (js ''Failed to send message'')),
                 (js ''details'', JStr m)])"
    by (simp add: post_send_def send_catch_def)
next
  assume h: "body = Some b \<and> isConnected s \<and> get_prop b (js ''to'') = Some v \<and> truthy v
        \<and> \<not> is_string v \<and> (\<forall>xs. v \<noteq> JArr xs) \<and> truthy_opt (get_prop b (js ''text''))"
  then have nn: "b \<noteq> JNull" by auto
  from h have f: "formattedTo to_string v = Inl TypeError" by (simp add: formattedTo_other)
  from h nn f show "post_send to_string type_error s so now body =
          ([LogError], 500,
           JObj [(js ''error'', JStr (js ''Failed to send message'')),
                 (js ''details'', JStr type_error)])"
    by (auto simp: post_send_def send_catch_def split: option.splits)
next
  assume h: "body = Some b \<and> isConnected s \<and> get_prop b (js ''to'') = Some (JStr to_id) \<and> to_id \<noteq> []
        \<and> get_prop b (js ''text'') = Some x \<and> truthy x \<and> \<not> is_string x"
  then have nn: "b \<noteq> JNull" by auto
  from h nn show "post_send to_string type_error s Sent now body =
          ([SockSendMessage (if 0x40 \<in> set to_id then to_id else to_id @ js ''@s.whatsapp.net'') x,
            LogError], 500,
           JObj [(js ''error'', JStr (js ''Failed to send message'')),
                 (js ''details'', JStr type_error)])"
    by (simp add: post_send_def send_catch_def)
next
  assume h: "body = Some b \<and> isConnected s \<and> get_prop b (js ''to'') = Some v \<and> truthy v
        \<and> get_prop b (js ''text'') = Some x \<and> truthy x \<and> formattedTo to_string v = Inr jid"
  then have nn: "b \<noteq> JNull" by auto
  from h nn show "post_send to_string type_error s (SendFailed m) now body =
          ([send_call jid x, LogError], 500,
           JObj [(js ''error'', JStr (js ''Failed to send message'')),
                 (js ''details'', JStr m)])"
    by (simp add: post_send_def send_catch_def)
  from h nn show "post_send to_string type_error s Sent now body =
          (if is_string x then
             ([send_call jid x, LogInfo], 200,
           JObj [(js ''success'', JBool True),
                 (js ''message'', JStr (js ''Message sent successfully'')),
                 (js ''to'', v),
                 (js ''timestamp'', JStr now)])
           else
             ([send_call jid x, LogError], 500,
           JObj [(js ''error'', JStr (js ''Failed to send message'')),
                 (js ''details'', JStr type_error)]))"
    by (simp add: post_send_def send_catch_def)
next
  assume "body = None \<or> body = Some JNull"
  then show "post_send to_string type_error s so now body =
          ([LogError], 500,
           JObj [(js ''error'', JStr (js ''Failed to send message'')),
                 (js ''details'', JStr type_error)])"
    by (auto simp: post_send_def send_catch_def)
qed

theorem post_send_responses_witness:
  "\<not> isConnected initial
   \<and> post_send (js ''5,5'') (js ''type error'') initial Sent (js ''t'')
         (Some (JObj [(js ''to'', JNum (Finite 555))]))
     = ([], 503, JObj [(js ''error'', JStr (js ''WhatsApp not connected'')),
                        (js ''status'', JStr (js ''disconnected''))])
   \<and> post_send (js ''5,5'') (js ''type error'') (initial\<lparr>isConnected := True\<rparr>) Sent (js ''t'')
         (Some (JObj [(js ''text'', JStr (js ''ping''))]))
     = ([], 400, JObj [(js ''error'', JStr (js ''Missing required fields: to, text''))])
   \<and> post_send (js ''5,5'') (js ''type error'') (initial\<lparr>isConnected := True\<rparr>) Sent (js ''t'')
         (Some (JObj [(js ''to'', JStr (js ''555'')), (js ''text'', JStr (js ''ping''))]))
     = ([SockSendMessage (js ''555@s.whatsapp.net'') (JStr (js ''ping'')), LogInfo], 200,
           JObj [(js ''success'', JBool True),
                 (js ''message'', JStr (js ''Message sent successfully'')),
                 (js ''to'', JStr (js ''555'')),
                 (js ''timestamp'', JStr (js ''t''))])
   \<and> post_send (js ''5,5'') (js ''type error'') (initial\<lparr>isConnected := True\<rparr>) (SendFailed (js ''Connection Closed'')) (js ''t'')
         (Some (JObj [(js ''to'', JStr (js ''555'')), (js ''text'', JStr (js ''ping''))]))
     = ([SockSendMessage (js ''555@s.whatsapp.net'') (JStr (js ''ping'')), LogError], 500,
           JObj [(js ''error'', JStr (js ''Failed to send message'')),
                 (js ''details'', JStr (js ''Connection Closed''))])
   \<and> post_send (js ''5,5'') (js ''type error'') (initial\<lparr>isConnected := True\<rparr>) Sent (js ''t'')
         (Some (JObj [(js ''to'', JNum (Finite 555)), (js ''text'', JStr (js ''ping''))]))
     = ([LogError], 500,
           JObj [(js ''error'', JStr (js ''Failed to send message'')),
                 (js ''details'', JStr (js ''type error''))])
   \<and> post_send (js ''5,5'') (js ''type error'') (initial\<lparr>isConnected := True\<rparr>) Sent (js ''t'')
         (Some (JObj [(js ''to'', JStr (js ''555'')), (js ''text'', JNum (Finite 42))]))
     = ([SockSendMessage (js ''555@s.whatsapp.net'') (JNum (Finite 42)), LogError], 500,
           JObj [(js ''error'', JStr (js ''Failed to send message'')),
                 (js ''details'', JStr (js ''type error''))])
   \<and> post_send (js ''5,5'') (js ''type error'') (initial\<lparr>isConnected := True\<rparr>) Sent (js ''t'')
         (Some (JObj [(js ''to'', JArr [JStr (js ''@''), JStr (js ''555'')]), (js ''text'', JStr (js ''ping''))]))
     = ([SockSendMessageArray [JStr (js ''@''), JStr (js ''555'')] (JStr (js ''ping'')), LogInfo], 200,
           JObj [(js ''success'', JBool True),
                 (js ''message'', JStr (js ''Message sent successfully'')),
                 (js ''to'', JArr [JStr (js ''@''), JStr (js ''555'')]),
                 (js ''timestamp'', JStr (js ''t''))])
   \<and> post_send (js ''5,5'') (js ''type error'') initial Sent (js ''t'') None
     = ([LogError], 500,
           JObj [(js ''error'', JStr (js ''Failed to send message'')),
                 (js ''details'', JStr (js ''type error''))])"
proof -
  have d: "\<not> isConnected initial" by (simp add: initial_def)
  have j: "0x40 \<notin> set (js ''555'')" "js ''555'' \<noteq> []" "js ''ping'' \<noteq> []"
    "js ''555'' @ js ''@s.whatsapp.net'' = js ''555@s.whatsapp.net''"
    "JStr [0x40] = JStr (js ''@'')"
    by (simp_all add: js_def)
  have k: "js ''to'' \<noteq> js ''text''" "js ''text'' \<noteq> js ''to''"
    by (simp_all add: js_def)
  have a: "post_send (js ''5,5'') (js ''type error'') initial Sent (js ''t'')
         (Some (JObj [(js ''to'', JNum (Finite 555))]))
     = ([], 503, JObj [(js ''error'', JStr (js ''WhatsApp not connected'')),
                        (js ''status'', JStr (js ''disconnected''))])"
    using d j k post_send_responses [where body = "Some (JObj [(js ''to'', JNum (Finite 555))])" and s = "initial"
        and to_string = "js ''5,5''" and type_error = "js ''type error''" and now = "js ''t''" and b = "JObj [(js ''to'', JNum (Finite 555))]" and so = Sent]
    by (simp add: initial_def)
  have b: "post_send (js ''5,5'') (js ''type error'') (initial\<lparr>isConnected := True\<rparr>) Sent (js ''t'')
         (Some (JObj [(js ''text'', JStr (js ''ping''))]))
     = ([], 400, JObj [(js ''error'', JStr (js ''Missing required fields: to, text''))])"
    using d j k post_send_responses [where body = "Some (JObj [(js ''text'', JStr (js ''ping''))])" and s = "initial\<lparr>isConnected := True\<rparr>"
        and to_string = "js ''5,5''" and type_error = "js ''type error''" and now = "js ''t''" and b = "JObj [(js ''text'', JStr (js ''ping''))]" and so = Sent]
    by (simp add: initial_def)
  have c: "post_send (js ''5,5'') (js ''type error'') (initial\<lparr>isConnected := True\<rparr>) Sent (js ''t'')
         (Some (JObj [(js ''to'', JStr (js ''555'')), (js ''text'', JStr (js ''ping''))]))
     = ([SockSendMessage (js ''555@s.whatsapp.net'') (JStr (js ''ping'')), LogInfo], 200,
           JObj [(js ''success'', JBool True),
                 (js ''message'', JStr (js ''Message sent successfully'')),
                 (js ''to'', JStr (js ''555'')),
                 (js ''timestamp'', JStr (js ''t''))])"
    using d j k post_send_responses [where body = "Some (JObj [(js ''to'', JStr (js ''555'')), (js ''text'', JStr (js ''ping''))])" and s = "initial\<lparr>isConnected := True\<rparr>"
        and to_string = "js ''5,5''" and type_error = "js ''type error''" and now = "js ''t''" and b = "JObj [(js ''to'', JStr (js ''555'')), (js ''text'', JStr (js ''ping''))]" and to_id = "js ''555''" and tx = "js ''ping''"]
    by (simp add: initial_def)
  have c2: "post_send (js ''5,5'') (js ''type error'') (initial\<lparr>isConnected := True\<rparr>) (SendFailed (js ''Connection Closed'')) (js ''t'')
         (Some (JObj [(js ''to'', JStr (js ''555'')), (js ''text'', JStr (js ''ping''))]))
     = ([SockSendMessage (js ''555@s.whatsapp.net'') (JStr (js ''ping'')), LogError], 500,
           JObj [(js ''error'', JStr (js ''Failed to send message'')),
                 (js ''details'', JStr (js ''Connection Closed''))])"
    using d j k post_send_responses [where body = "Some (JObj [(js ''to'', JStr (js ''555'')), (js ''text'', JStr (js ''ping''))])" and s = "initial\<lparr>isConnected := True\<rparr>"
        and to_string = "js ''5,5''" and type_error = "js ''type error''" and now = "js ''t''" and b = "JObj [(js ''to'', JStr (js ''555'')), (js ''text'', JStr (js ''ping''))]" and to_id = "js ''555''" and tx = "js ''ping''" and m = "js ''Connection Closed''"]
    by (simp add: initial_def)
  have e: "post_send (js ''5,5'') (js ''type error'') (initial\<lparr>isConnected := True\<rparr>) Sent (js ''t'')
         (Some (JObj [(js ''to'', JNum (Finite 555)), (js ''text'', JStr (js ''ping''))]))
     = ([LogError], 500,
           JObj [(js ''error'', JStr (js ''Failed to send message'')),
                 (js ''details'', JStr (js ''type error''))])"
    using d j k post_send_responses [where body = "Some (JObj [(js ''to'', JNum (Finite 555)), (js ''text'', JStr (js ''ping''))])" and s = "initial\<lparr>isConnected := True\<rparr>"
        and to_string = "js ''5,5''" and type_error = "js ''type error''" and now = "js ''t''" and b = "JObj [(js ''to'', JNum (Finite 555)), (js ''text'', JStr (js ''ping''))]" and v = "JNum (Finite 555)" and so = Sent]
    by (simp add: initial_def)
  have f: "post_send (js ''5,5'') (js ''type error'') (initial\<lparr>isConnected := True\<rparr>) Sent (js ''t'')
         (Some (JObj [(js ''to'', JStr (js ''555'')), (js ''text'', JNum (Finite 42))]))
     = ([SockSendMessage (js ''555@s.whatsapp.net'') (JNum (Finite 42)), LogError], 500,
           JObj [(js ''error'', JStr (js ''Failed to send message'')),
                 (js ''details'', JStr (js ''type error''))])"
    using d j k post_send_responses [where body = "Some (JObj [(js ''to'', JStr (js ''555'')), (js ''text'', JNum (Finite 42))])" and s = "initial\<lparr>isConnected := True\<rparr>"
        and to_string = "js ''5,5''" and type_error = "js ''type error''" and now = "js ''t''" and b = "JObj [(js ''to'', JStr (js ''555'')), (js ''text'', JNum (Finite 42))]" and to_id = "js ''555''" and x = "JNum (Finite 42)"]
    by (simp add: initial_def)
  have g: "post_send (js ''5,5'') (js ''type error'') (initial\<lparr>isConnected := True\<rparr>) Sent (js ''t'')
         (Some (JObj [(js ''to'', JArr [JStr (js ''@''), JStr (js ''555'')]), (js ''text'', JStr (js ''ping''))]))
     = ([SockSendMessageArray [JStr (js ''@''), JStr (js ''555'')] (JStr (js ''ping'')), LogInfo], 200,
           JObj [(js ''success'', JBool True),
                 (js ''message'', JStr (js ''Message sent successfully'')),
                 (js ''to'', JArr [JStr (js ''@''), JStr (js ''555'')]),
                 (js ''timestamp'', JStr (js ''t''))])"
    using d j k post_send_responses [where body = "Some (JObj [(js ''to'', JArr [JStr (js ''@''), JStr (js ''555'')]), (js ''text'', JStr (js ''ping''))])" and s = "initial\<lparr>isConnected := True\<rparr>"
        and to_string = "js ''5,5''" and type_error = "js ''type error''" and now = "js ''t''" and b = "JObj [(js ''to'', JArr [JStr (js ''@''), JStr (js ''555'')]), (js ''text'', JStr (js ''ping''))]" and v = "JArr [JStr (js ''@''), JStr (js ''555'')]" and x = "JStr (js ''ping'')" and jid = "JidArray [JStr (js ''@''), JStr (js ''555'')]"]
    by (simp add: initial_def)
  have n: "post_send (js ''5,5'') (js ''type error'') initial Sent (js ''t'') None
     = ([LogError], 500,
           JObj [(js ''error'', JStr (js ''Failed to send message'')),
                 (js ''details'', JStr (js ''type error''))])"
    using d j k post_send_responses [where body = "None" and s = "initial"
        and to_string = "js ''5,5''" and type_error = "js ''type error''" and now = "js ''t''" and so = Sent]
    by (simp add: initial_def)
  from d a b c c2 e f g n show ?thesis by simp
qed

text \<open>
  Claim C9 as stated fails when the bridge is not connected and a field is missing:
  the answer is 503, not 400.
\<close>

theorem missing_field_disconnected_counterexample:
  "get_prop (JObj [(js ''text'', JStr (js ''ping''))]) (js ''to'') = None
   \<and> post_send [] (js ''type error'') initial Sent (js ''t'')
         (Some (JObj [(js ''text'', JStr (js ''ping''))]))
     = ([], 503, JObj [(js ''error'', JStr (js ''WhatsApp not connected'')),
                        (js ''status'', JStr (js ''disconnected''))])"
  by (simp add: post_send_def initial_def js_def)

section \<open>Replies while not connected\<close>

text \<open>
  Claim C3 at a failing input. The reply path never reads \<open>isConnected\<close> (which is why
  the handler takes no state): with the bridge not connected, a reply resolved from
  the webhook's response is still passed to \<open>sock.sendMessage\<close>, and it is the
  socket's error that is logged. The API path, with the same target and text in the
  same state, makes no send.
\<close>

theorem reply_sent_while_disconnected:
  "\<not> isConnected initial
   \<and> on_messages_upsert (Resolved (JObj [(js ''reply'', JStr (js ''hi there''))]))
        (SendFailed (js ''Connection Closed'')) (js ''t'')
        (Some [\<lparr> key = \<lparr> remoteJid = Some (js ''123@s.whatsapp.net''), fromMe = False,
                    key_id = Some (js ''A1'') \<rparr>,
            message = Some [Conversation (Some (js ''hello''))] \<rparr>])
        (js ''notify'')
     = [LogInfo,
        HttpPost \<lparr> msg_from = js ''123'', msg_text = js ''hello'', timestamp = js ''t'',
            messageId = Some (js ''A1''), messageType = js ''conversation'' \<rparr>,
        LogInfo, LogInfo,
        SockSendMessage (js ''123@s.whatsapp.net'') (JStr (js ''hi there'')),
        LogError]
   \<and> fst (post_send to_string type_error initial (SendFailed (js ''Connection Closed'')) (js ''t'')
             (Some (JObj [(js ''to'', JStr (js ''123'')),
                          (js ''text'', JStr (js ''hi there''))]))) = []"
  by (simp add: initial_def on_messages_upsert_def handleIncomingMessage_def normalize_def
        resolve_def trim_def is_ws_def post_send_def js_def)

theorem reply_sent_while_disconnected_witness:
  "\<not> isConnected initial
   \<and> SockSendMessage (js ''123@s.whatsapp.net'') (JStr (js ''hi there''))
       \<in> set (on_messages_upsert (Resolved (JObj [(js ''reply'', JStr (js ''hi there''))]))
                (SendFailed (js ''Connection Closed'')) (js ''t'')
                (Some [\<lparr> key = \<lparr> remoteJid = Some (js ''123@s.whatsapp.net''), fromMe = False,
                            key_id = Some (js ''A1'') \<rparr>,
                    message = Some [Conversation (Some (js ''hello''))] \<rparr>])
                (js ''notify''))
   \<and> fst (post_send [] (js ''type error'') initial (SendFailed (js ''Connection Closed'')) (js ''t'')
             (Some (JObj [(js ''to'', JStr (js ''123'')),
                          (js ''text'', JStr (js ''hi there''))]))) = []"
  using reply_sent_while_disconnected [of "[]" "js ''type error''"]
  by simp

section \<open>Reconnect timers\<close>

text \<open>
  Claim C2, as the code has it. Every \<open>close\<close> update with a reason other than
  \<open>loggedOut\<close> schedules one reconnect in 5 seconds when the second half of its listener
  runs, whether or not a reconnect is already pending; nothing else in the listener
  schedules one. An update without a pairing token is handled on arrival, one with a
  token when its rendering settles. So \<open>n\<close> close updates in a row, which carry no
  token, leave \<open>n\<close> more timers pending.
\<close>

theorem reconnect_timer_per_close:
  "timers (connection_part lo s u) =
     (if connection u = Some Close \<and> statusCode u \<noteq> Some lo then timers s @ [5000] else timers s)
   \<and> timers (on_connection_update lo s u g) =
     (if (qr u = None \<or> qr u = Some []) \<and> connection u = Some Close \<and> statusCode u \<noteq> Some lo
      then timers s @ [5000] else timers s)
   \<and> timers (render_settled lo i d s) =
     (if i < length (rendering s) \<and> connection (rendering s ! i) = Some Close
         \<and> statusCode (rendering s ! i) \<noteq> Some lo
      then timers s @ [5000] else timers s)
   \<and> (connection u = Some Close \<and> statusCode u \<noteq> Some lo \<and> qr u = None \<longrightarrow>
        timers (run lo s (replicate n (ConnectionUpdate u g))) = timers s @ replicate n 5000)"
  by (simp add: timers_part timers_update timers_render timers_closes)

theorem reconnect_timer_per_close_witness:
  "connection \<lparr> connection = Some Close, statusCode = Some 428, qr = None \<rparr> = Some Close
   \<and> statusCode \<lparr> connection = Some Close, statusCode = Some 428, qr = None \<rparr> \<noteq> Some 401
   \<and> qr \<lparr> connection = Some Close, statusCode = Some 428, qr = None \<rparr> = None
   \<and> timers (run 401 initial
        (replicate 3 (ConnectionUpdate \<lparr> connection = Some Close, statusCode = Some 428, qr = None \<rparr>
           True))) = [5000, 5000, 5000]"
  using reconnect_timer_per_close [of 401 initial
          "\<lparr> connection = Some Close, statusCode = Some 428, qr = None \<rparr>" True _ _ 3]
  by (simp add: initial_def numeral_3_eq_3)

text \<open>
  Claim C2 as stated fails: after two \<open>close\<close> updates with no timer fired in
  between, two reconnect timers are pending.
\<close>

theorem second_close_counterexample:
  "timers (run 401 initial
     [ConnectionUpdate \<lparr> connection = Some Close, statusCode = Some 428, qr = None \<rparr> True,
      ConnectionUpdate \<lparr> connection = Some Close, statusCode = Some 408, qr = None \<rparr> True])
   = [5000, 5000]"
  by (simp add: run_def on_connection_update_def connection_part_def initial_def)

section \<open>Pairing challenge and status\<close>




end
